theory Spec2Isabelle
  imports
    Complex_Main
    "HOL-Library.Char_ord"
    "HOL-Library.List_Lexorder"
    "HOL-Library.Sublist"
    "HOL-Library.Multiset"
    "HOL-Library.Monad_Syntax"
begin

section \<open>Data frames\<close>

text \<open>
  The notebook \<^verbatim>\<open>student_performance_clarify.ipynb\<close> works on pandas data frames.
  A cell of a frame read from a CSV file is a string, a number or the missing value
  \<^verbatim>\<open>NaN\<close>. A series is a label with its values, a frame is the list of its columns in
  order. The row index is left out: every frame of the notebook is derived from the one
  frame \<^verbatim>\<open>data\<close> and shares its index, so rows are identified by their position.
  Numbers are integers here; the notebook does no arithmetic on them.
\<close>

datatype cell = Str string | Num int | NaN

type_synonym series = "string \<times> cell list"

type_synonym frame = "series list"

definition nrows :: "frame \<Rightarrow> nat" where
  "nrows fr = (case fr of [] \<Rightarrow> 0 | s # _ \<Rightarrow> length (snd s))"

text \<open>Every column of a pandas frame has one value per row.\<close>

definition wf_frame :: "frame \<Rightarrow> bool" where
  "wf_frame fr = list_all (\<lambda>s. length (snd s) = nrows fr) fr"

definition labels :: "frame \<Rightarrow> string list" where
  "labels fr = map fst fr"

text \<open>
  An exception of the Python code is the result \<open>None\<close>.

  \<^verbatim>\<open>students.columns = [...]\<close> raises \<^verbatim>\<open>ValueError\<close> unless the frame has as many
  columns as the list has names; otherwise the columns are relabelled by position.
\<close>

definition set_columns :: "string list \<Rightarrow> frame \<Rightarrow> frame option" where
  "set_columns names fr =
     (if length names = length fr then Some (zip names (map snd fr)) else None)"

text \<open>
  \<^verbatim>\<open>students.Gender\<close>, \<^verbatim>\<open>df.FinalGrade\<close>: the series of that label;
  \<^verbatim>\<open>AttributeError\<close> when there is none. (With several columns of one label pandas
  hands back a frame, on which the next operation of the notebook fails; the result is
  \<open>None\<close> there as well.)
\<close>

definition col :: "frame \<Rightarrow> string \<Rightarrow> series option" where
  "col fr name = (case filter (\<lambda>s. fst s = name) fr of [s] \<Rightarrow> Some s | _ \<Rightarrow> None)"

text \<open>
  \<^verbatim>\<open>Series.map(dict)\<close>: every value is looked up in the dictionary; a value that is not
  a key (the missing value included) becomes \<^verbatim>\<open>NaN\<close>. The series keeps its label.
\<close>

definition map_series :: "(cell \<rightharpoonup> cell) \<Rightarrow> series \<Rightarrow> series" where
  "map_series d s = (fst s, map (\<lambda>v. case d v of Some r \<Rightarrow> r | None \<Rightarrow> NaN) (snd s))"

text \<open>
  \<^verbatim>\<open>pd.concat([df, res], axis=1, sort=False)\<close> of frames over the same index: the columns
  of \<open>df\<close> followed by those of \<open>res\<close>. A series counts as a frame of one column, which is
  also what \<^verbatim>\<open>pd.DataFrame(series)\<close> builds.
\<close>

definition DataFrame :: "series \<Rightarrow> frame" where
  "DataFrame s = [s]"

definition concat_cols :: "frame \<Rightarrow> frame \<Rightarrow> frame" where
  "concat_cols df res = df @ res"

text \<open>
  \<^verbatim>\<open>pd.get_dummies(series, prefix=p)\<close> with its defaults (\<^verbatim>\<open>dummy_na=False\<close>,
  \<^verbatim>\<open>prefix_sep="_"\<close>): the levels are the distinct values of the series that are not
  missing, sorted (numbers before strings, each in their own order; strings compare by
  code point); there is one indicator column per level, labelled \<^verbatim>\<open>p_level\<close>, that
  holds 1 in the rows equal to the level and 0 elsewhere.

  In the label the level is printed by Python's \<^verbatim>\<open>str\<close>. A string is printed as it is.
  How a number is printed depends on the dtype of the series, which a series does not
  carry here: 1 is printed \<^verbatim>\<open>1\<close> in a column of integers and \<^verbatim>\<open>1.0\<close> in a column of
  floats, which a numerical column with a missing cell is. The printing of the numbers
  of a series is therefore a parameter, \<open>fmt\<close>, and everything below holds for every \<open>fmt\<close>.
  \<open>str_int64\<close> is the printing for a column of integers.
\<close>

fun num_values :: "cell list \<Rightarrow> int list" where
  "num_values [] = []"
| "num_values (Num n # vs) = n # num_values vs"
| "num_values (_ # vs) = num_values vs"

fun str_values :: "cell list \<Rightarrow> string list" where
  "str_values [] = []"
| "str_values (Str s # vs) = s # str_values vs"
| "str_values (_ # vs) = str_values vs"

definition levels :: "cell list \<Rightarrow> cell list" where
  "levels vs = map Num (sort (remdups (num_values vs))) @ map Str (sort (remdups (str_values vs)))"

fun digits :: "nat \<Rightarrow> string" where
  "digits n = (if n < 10 then [char_of (48 + n)] else digits (n div 10) @ [char_of (48 + n mod 10)])"

declare digits.simps [simp del]

definition str_int64 :: "series \<Rightarrow> int \<Rightarrow> string" where
  "str_int64 s i = (if i < 0 then ''-'' @ digits (nat (- i)) else digits (nat i))"

fun str_level :: "(int \<Rightarrow> string) \<Rightarrow> cell \<Rightarrow> string" where
  "str_level f (Str s) = s"
| "str_level f (Num i) = f i"
| "str_level f NaN = ''nan''"

definition indicator :: "cell \<Rightarrow> cell \<Rightarrow> cell" where
  "indicator l v = (if v = l then Num 1 else Num 0)"

definition get_dummies :: "(series \<Rightarrow> int \<Rightarrow> string) \<Rightarrow> series \<Rightarrow> string \<Rightarrow> frame" where
  "get_dummies fmt s pfx =
     map (\<lambda>l. (pfx @ ''_'' @ str_level (fmt s) l, map (indicator l) (snd s))) (levels (snd s))"

text \<open>
  \<^verbatim>\<open>df.drop(labels, axis=1)\<close>: the frame without the columns of those labels;
  \<^verbatim>\<open>KeyError\<close> when a label is not in the frame.
\<close>

definition drop_labels :: "string list \<Rightarrow> frame \<Rightarrow> frame option" where
  "drop_labels ls df =
     (if list_all (\<lambda>l. l \<in> set (labels df)) ls
      then Some (filter (\<lambda>s. fst s \<notin> set ls) df) else None)"

section \<open>Preprocessing\<close>

text \<open>The list of names assigned to \<^verbatim>\<open>students.columns\<close>, with the source's remarks.\<close>

definition COLUMNS :: "string list" where
  "COLUMNS =
    [''Gender'',              \<comment> \<open>1. (binary)\<close>
     ''Age'',                 \<comment> \<open>2. (numerical)\<close>
     ''Address'',             \<comment> \<open>3. (binary)\<close>
     ''FamilySize'',          \<comment> \<open>4. (binary)\<close>
     ''ParentCohabStatus'',   \<comment> \<open>5. (binary)\<close>
     ''MotherEducation'',     \<comment> \<open>6. (numeric)\<close>
     ''FatherEducation'',     \<comment> \<open>7. (numeric)\<close>
     ''MotherJob'',           \<comment> \<open>8. (nominal)\<close>
     ''FatherJob'',           \<comment> \<open>9. (nominal)\<close>
     ''SchoolChoiceReason'',  \<comment> \<open>10. (nominal)\<close>
     ''Guardian'',            \<comment> \<open>11. (nominal)\<close>
     ''TravelTime'',          \<comment> \<open>12. (numerical)\<close>
     ''StudyTime'',           \<comment> \<open>13. (numerical)\<close>
     ''Failures'',            \<comment> \<open>14. (numerical)\<close>
     ''SchoolSup'',           \<comment> \<open>15. (binary)\<close>
     ''FamilySup'',           \<comment> \<open>16. (binary)\<close>
     ''ExtraPaidClasses'',    \<comment> \<open>17. (binary)\<close>
     ''ExtraActivities'',     \<comment> \<open>18. (binary)\<close>
     ''Nursery'',             \<comment> \<open>19. (binary)\<close>
     ''WantsHigherEdu'',      \<comment> \<open>20. (binary)\<close>
     ''HasInternet'',         \<comment> \<open>21. (binary)\<close>
     ''Romantic'',            \<comment> \<open>22. (binary)\<close>
     ''FamilyRelQuality'',    \<comment> \<open>23. (numerical)\<close>
     ''FreeTime'',            \<comment> \<open>24. (numerical)\<close>
     ''GoOut'',               \<comment> \<open>25. (numerical)\<close>
     ''WorkdayAlcohol'',      \<comment> \<open>26. (numerical)\<close>
     ''WeekendAlcohol'',      \<comment> \<open>27. (numerical)\<close>
     ''HealthStatus'',        \<comment> \<open>28. (numerical)\<close>
     ''Absences'',            \<comment> \<open>29. (numerical)\<close>
     ''FirstGrade'',          \<comment> \<open>30. (numerical) G1\<close>
     ''SecondGrade'',         \<comment> \<open>31. (numerical) G2\<close>
     ''FinalGrade'']          \<comment> \<open>32. (numerical) G3, the target\<close>"

text \<open>The dictionaries of the \<^verbatim>\<open>map\<close> calls.\<close>

definition gender_dict :: "cell \<rightharpoonup> cell" where
  "gender_dict = [Str ''F'' \<mapsto> Num 1, Str ''M'' \<mapsto> Num 0]"

definition address_dict :: "cell \<rightharpoonup> cell" where
  "address_dict = [Str ''U'' \<mapsto> Num 1, Str ''R'' \<mapsto> Num 0]"

definition famsize_dict :: "cell \<rightharpoonup> cell" where
  "famsize_dict = [Str ''LE3'' \<mapsto> Num 1, Str ''GT3'' \<mapsto> Num 0]"

definition cohab_dict :: "cell \<rightharpoonup> cell" where
  "cohab_dict = [Str ''T'' \<mapsto> Num 1, Str ''A'' \<mapsto> Num 0]"

definition yes_no_dict :: "cell \<rightharpoonup> cell" where
  "yes_no_dict = [Str ''yes'' \<mapsto> Num 1, Str ''no'' \<mapsto> Num 0]"

text \<open>
  \<^verbatim>\<open>_preprocess_data(students)\<close>, statement by statement. The two \<^verbatim>\<open>print\<close> calls
  only format the shape and the labels of \<open>df\<close> and are left out. The assignment to
  \<^verbatim>\<open>students.columns\<close> changes the frame that the caller passed: \<open>preprocess_run\<close> gives
  that frame as the call leaves it together with the returned triple, and
  \<open>preprocess_data\<close> is the returned triple alone.
\<close>

definition preprocess_run ::
    "(series \<Rightarrow> int \<Rightarrow> string) \<Rightarrow> frame \<Rightarrow> (frame \<times> frame \<times> series \<times> frame) option" where
  "preprocess_run fmt students0 = do {
     students \<leftarrow> set_columns COLUMNS students0;
     c \<leftarrow> col students ''FinalGrade'';
     let df = DataFrame c;
     c \<leftarrow> col students ''Gender'';
     let res = map_series gender_dict c;
     let df = concat_cols df [res];
     c \<leftarrow> col students ''Age'';
     let df = concat_cols df [c];
     c \<leftarrow> col students ''Address'';
     let res = map_series address_dict c;
     let df = concat_cols df [res];
     c \<leftarrow> col students ''FamilySize'';
     let res = map_series famsize_dict c;
     let df = concat_cols df [res];
     c \<leftarrow> col students ''ParentCohabStatus'';
     let res = map_series cohab_dict c;
     let df = concat_cols df [res];
     c \<leftarrow> col students ''MotherEducation'';
     let df = concat_cols df [c];
     c \<leftarrow> col students ''FatherEducation'';
     let df = concat_cols df [c];
     c \<leftarrow> col students ''MotherJob'';
     let res = get_dummies fmt c ''MotherJob'';
     let df = concat_cols df res;
     c \<leftarrow> col students ''FatherJob'';
     let res = get_dummies fmt c ''FatherJob'';
     let df = concat_cols df res;
     c \<leftarrow> col students ''SchoolChoiceReason'';
     let res = get_dummies fmt c ''SchoolChoiceReason'';
     let df = concat_cols df res;
     c \<leftarrow> col students ''TravelTime'';
     let df = concat_cols df [c];
     c \<leftarrow> col students ''StudyTime'';
     let df = concat_cols df [c];
     c \<leftarrow> col students ''Failures'';
     let df = concat_cols df [c];
     c \<leftarrow> col students ''SchoolSup'';
     let res = map_series yes_no_dict c;
     let df = concat_cols df [res];
     c \<leftarrow> col students ''FamilySup'';
     let res = map_series yes_no_dict c;
     let df = concat_cols df [res];
     c \<leftarrow> col students ''ExtraPaidClasses'';
     let res = map_series yes_no_dict c;
     let df = concat_cols df [res];
     c \<leftarrow> col students ''Nursery'';
     let res = map_series yes_no_dict c;
     let df = concat_cols df [res];
     c \<leftarrow> col students ''WantsHigherEdu'';
     let res = map_series yes_no_dict c;
     let df = concat_cols df [res];
     c \<leftarrow> col students ''HasInternet'';
     let res = map_series yes_no_dict c;
     let df = concat_cols df [res];
     c \<leftarrow> col students ''Romantic'';
     let res = map_series yes_no_dict c;
     let df = concat_cols df [res];
     c \<leftarrow> col students ''FamilyRelQuality'';
     let df = concat_cols df [c];
     c \<leftarrow> col students ''FreeTime'';
     let df = concat_cols df [c];
     c \<leftarrow> col students ''GoOut'';
     let df = concat_cols df [c];
     c \<leftarrow> col students ''WorkdayAlcohol'';
     let df = concat_cols df [c];
     c \<leftarrow> col students ''WeekendAlcohol'';
     let df = concat_cols df [c];
     c \<leftarrow> col students ''HealthStatus'';
     let df = concat_cols df [c];
     c \<leftarrow> col students ''Absences'';
     let df = concat_cols df [c];
     X \<leftarrow> drop_labels [''FinalGrade''] df;
     y \<leftarrow> col df ''FinalGrade'';
     Some (students, X, y, df)
   }"

definition preprocess_data ::
    "(series \<Rightarrow> int \<Rightarrow> string) \<Rightarrow> frame \<Rightarrow> (frame \<times> series \<times> frame) option" where
  "preprocess_data fmt students0 = map_option snd (preprocess_run fmt students0)"


section \<open>Train and validation split\<close>

text \<open>
  \<^verbatim>\<open>train_test_split(df, test_size=0.2, random_state=42)\<close> of scikit-learn: with
  \<open>n_samples\<close> rows, \<open>n_test = ceil(test_size * n_samples)\<close> and
  \<open>n_train = n_samples - n_test\<close>; an empty training set is refused with
  \<^verbatim>\<open>ValueError\<close>. The rows are then shuffled: \<open>permutation\<close> is what
  \<^verbatim>\<open>rng.permutation(n_samples)\<close> returns for the seeded generator, a permutation of
  \<open>0..<n_samples\<close>, and it is a parameter here. The first \<open>n_test\<close> positions of it are
  the validation rows, the next \<open>n_train\<close> the training rows. (The product is computed in
  binary floating point by the library; for every row count below \<open>2^52\<close> its ceiling is
  that of the exact product, which is what is written here.)
\<close>

definition test_size :: real where
  "test_size = 2 / 10"

text \<open>\<^verbatim>\<open>df.iloc[idx]\<close>: the rows at the given positions, \<^verbatim>\<open>IndexError\<close> out of range.\<close>

definition iloc :: "frame \<Rightarrow> nat list \<Rightarrow> frame option" where
  "iloc fr idx =
     (if list_all (\<lambda>i. i < nrows fr) idx
      then Some (map (\<lambda>s. (fst s, map (\<lambda>i. snd s ! i) idx)) fr) else None)"

definition train_test_split :: "nat list \<Rightarrow> frame \<Rightarrow> (frame \<times> frame) option" where
  "train_test_split permutation df =
     (let n_samples = nrows df;
          n_test = nat \<lceil>test_size * real n_samples\<rceil>;
          n_train = n_samples - n_test
      in if n_train = 0 then None
         else do {
           let ind_test = take n_test permutation;
           let ind_train = take n_train (drop n_test permutation);
           train \<leftarrow> iloc df ind_train;
           test \<leftarrow> iloc df ind_test;
           Some (train, test)
         })"



section \<open>The sequence of remote calls\<close>





section \<open>Properties and sample data\<close>

text \<open>
  \<open>encodes src out name one zero\<close>: column \<open>name\<close> of \<open>out\<close> is, row by row, 1 exactly
  where column \<open>name\<close> of \<open>src\<close> holds the string \<open>one\<close>, and 0 exactly where it holds \<open>zero\<close>.
\<close>

definition encodes :: "frame \<Rightarrow> frame \<Rightarrow> string \<Rightarrow> string \<Rightarrow> string \<Rightarrow> bool" where
  "encodes src out name one zero =
     (case (col src name, col out name) of
        (Some a, Some b) \<Rightarrow>
          list_all2 (\<lambda>x y. (y = Num 1 \<longleftrightarrow> x = Str one) \<and> (y = Num 0 \<longleftrightarrow> x = Str zero))
            (snd a) (snd b)
      | _ \<Rightarrow> False)"

text \<open>
  \<open>missing_outside src out name d\<close>: column \<open>name\<close> of \<open>out\<close> holds the missing value in
  every row where column \<open>name\<close> of \<open>src\<close> holds a value that is not a key of \<open>d\<close>.
\<close>

definition missing_outside :: "frame \<Rightarrow> frame \<Rightarrow> string \<Rightarrow> (cell \<rightharpoonup> cell) \<Rightarrow> bool" where
  "missing_outside src out name d =
     (case (col src name, col out name) of
        (Some a, Some b) \<Rightarrow> list_all2 (\<lambda>x y. d x = None \<longrightarrow> y = NaN) (snd a) (snd b)
      | _ \<Rightarrow> False)"

text \<open>The indicator columns of a nominal attribute, and how many of them hold 1 in a row.\<close>

definition group :: "string \<Rightarrow> frame \<Rightarrow> frame" where
  "group pfx fr = filter (\<lambda>s. prefix (pfx @ ''_'') (fst s)) fr"

definition hot_count :: "frame \<Rightarrow> nat \<Rightarrow> nat" where
  "hot_count g i = length (filter (\<lambda>s. snd s ! i = Num 1) g)"

definition binary_column :: "series \<Rightarrow> bool" where
  "binary_column s = list_all (\<lambda>v. v = Num 0 \<or> v = Num 1) (snd s)"

text \<open>
  \<open>one_hot fmt src out pfx\<close>: the indicator columns of \<open>pfx\<close> in \<open>out\<close> are, in order, one
  per level of column \<open>pfx\<close> of \<open>src\<close>; the column of a level is labelled prefix,
  underscore, level, and holds, row by row, 1 where \<open>src\<close> holds that level and 0 where it
  does not; the columns are as many as \<open>src\<close> has distinct values that are not missing;
  and in each row exactly one of them is 1, unless the value of \<open>src\<close> is missing there,
  in which case none is.
\<close>

definition one_hot :: "(series \<Rightarrow> int \<Rightarrow> string) \<Rightarrow> frame \<Rightarrow> frame \<Rightarrow> string \<Rightarrow> bool" where
  "one_hot fmt src out pfx =
     (case col src pfx of
        None \<Rightarrow> False
      | Some c \<Rightarrow>
          list_all2
            (\<lambda>l s. fst s = pfx @ ''_'' @ str_level (fmt c) l \<and>
                   list_all2 (\<lambda>v x. x = (if v = l then Num 1 else Num 0)) (snd c) (snd s))
            (levels (snd c)) (group pfx out) \<and>
          length (group pfx out) = card (set (snd c) - {NaN}) \<and>
          list_all (\<lambda>s. binary_column s \<and> length (snd s) = length (snd c)) (group pfx out) \<and>
          list_all (\<lambda>i. hot_count (group pfx out) i = (if snd c ! i = NaN then 0 else 1))
            [0..<length (snd c)])"

text \<open>
  Three students in the layout of the data file (the columns of \<^verbatim>\<open>student-mat.csv\<close>
  after the school), and the same with cells left empty or misspelt in the file.
\<close>

definition sample_students :: frame where
  "sample_students =
    [(''sex'', [Str ''F'', Str ''F'', Str ''M'']),
     (''age'', [Num 18, Num 15, Num 16]),
     (''address'', [Str ''U'', Str ''U'', Str ''R'']),
     (''famsize'', [Str ''GT3'', Str ''LE3'', Str ''LE3'']),
     (''Pstatus'', [Str ''A'', Str ''T'', Str ''T'']),
     (''Medu'', [Num 4, Num 1, Num 4]),
     (''Fedu'', [Num 4, Num 1, Num 3]),
     (''Mjob'', [Str ''at_home'', Str ''at_home'', Str ''services'']),
     (''Fjob'', [Str ''teacher'', Str ''other'', Str ''other'']),
     (''reason'', [Str ''course'', Str ''other'', Str ''reputation'']),
     (''guardian'', [Str ''mother'', Str ''mother'', Str ''mother'']),
     (''traveltime'', [Num 2, Num 1, Num 1]),
     (''studytime'', [Num 2, Num 2, Num 2]),
     (''failures'', [Num 0, Num 3, Num 0]),
     (''schoolsup'', [Str ''yes'', Str ''yes'', Str ''no'']),
     (''famsup'', [Str ''no'', Str ''no'', Str ''yes'']),
     (''paid'', [Str ''no'', Str ''yes'', Str ''yes'']),
     (''activities'', [Str ''no'', Str ''no'', Str ''yes'']),
     (''nursery'', [Str ''yes'', Str ''yes'', Str ''yes'']),
     (''higher'', [Str ''yes'', Str ''yes'', Str ''yes'']),
     (''internet'', [Str ''no'', Str ''yes'', Str ''yes'']),
     (''romantic'', [Str ''no'', Str ''no'', Str ''no'']),
     (''famrel'', [Num 4, Num 4, Num 5]),
     (''freetime'', [Num 3, Num 3, Num 4]),
     (''goout'', [Num 4, Num 2, Num 2]),
     (''Dalc'', [Num 1, Num 2, Num 1]),
     (''Walc'', [Num 1, Num 3, Num 2]),
     (''health'', [Num 3, Num 3, Num 5]),
     (''absences'', [Num 6, Num 10, Num 10]),
     (''G1'', [Num 5, Num 7, Num 15]),
     (''G2'', [Num 6, Num 8, Num 15]),
     (''G3'', [Num 6, Num 10, Num 15])]"

definition set_cell :: "nat \<Rightarrow> nat \<Rightarrow> cell \<Rightarrow> frame \<Rightarrow> frame" where
  "set_cell j i v fr = fr[j := (fst (fr ! j), (snd (fr ! j))[i := v])]"

definition damaged_students :: frame where
  "damaged_students = set_cell 0 0 (Str ''f'') (set_cell 7 1 NaN sample_students)"


text \<open>The three parts of a result.\<close>

definition result_X :: "(frame \<times> series \<times> frame) option \<Rightarrow> frame" where
  "result_X r = (case r of Some (X, y, df) \<Rightarrow> X | None \<Rightarrow> [])"

definition result_y :: "(frame \<times> series \<times> frame) option \<Rightarrow> series" where
  "result_y r = (case r of Some (X, y, df) \<Rightarrow> y | None \<Rightarrow> ([], []))"

definition result_df :: "(frame \<times> series \<times> frame) option \<Rightarrow> frame" where
  "result_df r = (case r of Some (X, y, df) \<Rightarrow> df | None \<Rightarrow> [])"

text \<open>
  The value of \<open>df\<close> at the end of \<^verbatim>\<open>_preprocess_data\<close>, in terms of the values \<open>v\<close> of
  the 32 input columns; \<open>preprocess_closed\<close> below proves that this is what the function
  computes.
\<close>

definition df_of_columns :: "(series \<Rightarrow> int \<Rightarrow> string) \<Rightarrow> cell list list \<Rightarrow> frame" where
  "df_of_columns fmt v =
     [(''FinalGrade'', v ! 31),
      map_series gender_dict (''Gender'', v ! 0),
      (''Age'', v ! 1),
      map_series address_dict (''Address'', v ! 2),
      map_series famsize_dict (''FamilySize'', v ! 3),
      map_series cohab_dict (''ParentCohabStatus'', v ! 4),
      (''MotherEducation'', v ! 5),
      (''FatherEducation'', v ! 6)]
     @ get_dummies fmt (''MotherJob'', v ! 7) ''MotherJob''
     @ get_dummies fmt (''FatherJob'', v ! 8) ''FatherJob''
     @ get_dummies fmt (''SchoolChoiceReason'', v ! 9) ''SchoolChoiceReason''
     @ [(''TravelTime'', v ! 11),
        (''StudyTime'', v ! 12),
        (''Failures'', v ! 13),
        map_series yes_no_dict (''SchoolSup'', v ! 14),
        map_series yes_no_dict (''FamilySup'', v ! 15),
        map_series yes_no_dict (''ExtraPaidClasses'', v ! 16),
        map_series yes_no_dict (''Nursery'', v ! 18),
        map_series yes_no_dict (''WantsHigherEdu'', v ! 19),
        map_series yes_no_dict (''HasInternet'', v ! 20),
        map_series yes_no_dict (''Romantic'', v ! 21),
        (''FamilyRelQuality'', v ! 22),
        (''FreeTime'', v ! 23),
        (''GoOut'', v ! 24),
        (''WorkdayAlcohol'', v ! 25),
        (''WeekendAlcohol'', v ! 26),
        (''HealthStatus'', v ! 27),
        (''Absences'', v ! 28)]"

section \<open>The result of preprocessing, in closed form\<close>

lemma upt_32:
  "[0..<32] =
   [0, 1, 2, 3, 4, 5, 6, 7, 8, 9, 10, 11, 12, 13, 14, 15, 16, 17, 18, 19, 20, 21, 22,
    23, 24, 25, 26, 27, 28, 29, 30, 31 :: nat]"
  by (simp add: upt_rec)

lemma length_32_explicit:
  assumes "length (xs :: 'a list) = 32"
  shows "xs =
      [xs ! 0, xs ! 1, xs ! 2, xs ! 3, xs ! 4, xs ! 5, xs ! 6, xs ! 7, xs ! 8, xs ! 9,
       xs ! 10, xs ! 11, xs ! 12, xs ! 13, xs ! 14, xs ! 15, xs ! 16, xs ! 17, xs ! 18,
       xs ! 19, xs ! 20, xs ! 21, xs ! 22, xs ! 23, xs ! 24, xs ! 25, xs ! 26, xs ! 27,
       xs ! 28, xs ! 29, xs ! 30, xs ! 31]"
proof -
  have "xs = map ((!) xs) [0..<32]"
    using assms map_nth [of xs] by simp
  then show ?thesis
    unfolding upt_32 by simp
qed

lemma set_columns_explicit:
  "set_columns COLUMNS
      [a0, a1, a2, a3, a4, a5, a6, a7, a8, a9, a10, a11, a12, a13, a14, a15, a16, a17,
       a18, a19, a20, a21, a22, a23, a24, a25, a26, a27, a28, a29, a30, a31] =
   Some (zip COLUMNS
      [snd a0, snd a1, snd a2, snd a3, snd a4, snd a5, snd a6, snd a7, snd a8, snd a9,
       snd a10, snd a11, snd a12, snd a13, snd a14, snd a15, snd a16, snd a17, snd a18,
       snd a19, snd a20, snd a21, snd a22, snd a23, snd a24, snd a25, snd a26, snd a27,
       snd a28, snd a29, snd a30, snd a31])"
  by (simp add: set_columns_def COLUMNS_def)

lemma col_renamed:
  fixes vs :: "cell list list"
  assumes "vs =
      [v0, v1, v2, v3, v4, v5, v6, v7, v8, v9, v10, v11, v12, v13, v14, v15, v16, v17,
       v18, v19, v20, v21, v22, v23, v24, v25, v26, v27, v28, v29, v30, v31]"
  shows
  "col (zip COLUMNS vs) ''Gender'' = Some (''Gender'', v0)"
  "col (zip COLUMNS vs) ''Age'' = Some (''Age'', v1)"
  "col (zip COLUMNS vs) ''Address'' = Some (''Address'', v2)"
  "col (zip COLUMNS vs) ''FamilySize'' = Some (''FamilySize'', v3)"
  "col (zip COLUMNS vs) ''ParentCohabStatus'' = Some (''ParentCohabStatus'', v4)"
  "col (zip COLUMNS vs) ''MotherEducation'' = Some (''MotherEducation'', v5)"
  "col (zip COLUMNS vs) ''FatherEducation'' = Some (''FatherEducation'', v6)"
  "col (zip COLUMNS vs) ''MotherJob'' = Some (''MotherJob'', v7)"
  "col (zip COLUMNS vs) ''FatherJob'' = Some (''FatherJob'', v8)"
  "col (zip COLUMNS vs) ''SchoolChoiceReason'' = Some (''SchoolChoiceReason'', v9)"
  "col (zip COLUMNS vs) ''Guardian'' = Some (''Guardian'', v10)"
  "col (zip COLUMNS vs) ''TravelTime'' = Some (''TravelTime'', v11)"
  "col (zip COLUMNS vs) ''StudyTime'' = Some (''StudyTime'', v12)"
  "col (zip COLUMNS vs) ''Failures'' = Some (''Failures'', v13)"
  "col (zip COLUMNS vs) ''SchoolSup'' = Some (''SchoolSup'', v14)"
  "col (zip COLUMNS vs) ''FamilySup'' = Some (''FamilySup'', v15)"
  "col (zip COLUMNS vs) ''ExtraPaidClasses'' = Some (''ExtraPaidClasses'', v16)"
  "col (zip COLUMNS vs) ''ExtraActivities'' = Some (''ExtraActivities'', v17)"
  "col (zip COLUMNS vs) ''Nursery'' = Some (''Nursery'', v18)"
  "col (zip COLUMNS vs) ''WantsHigherEdu'' = Some (''WantsHigherEdu'', v19)"
  "col (zip COLUMNS vs) ''HasInternet'' = Some (''HasInternet'', v20)"
  "col (zip COLUMNS vs) ''Romantic'' = Some (''Romantic'', v21)"
  "col (zip COLUMNS vs) ''FamilyRelQuality'' = Some (''FamilyRelQuality'', v22)"
  "col (zip COLUMNS vs) ''FreeTime'' = Some (''FreeTime'', v23)"
  "col (zip COLUMNS vs) ''GoOut'' = Some (''GoOut'', v24)"
  "col (zip COLUMNS vs) ''WorkdayAlcohol'' = Some (''WorkdayAlcohol'', v25)"
  "col (zip COLUMNS vs) ''WeekendAlcohol'' = Some (''WeekendAlcohol'', v26)"
  "col (zip COLUMNS vs) ''HealthStatus'' = Some (''HealthStatus'', v27)"
  "col (zip COLUMNS vs) ''Absences'' = Some (''Absences'', v28)"
  "col (zip COLUMNS vs) ''FirstGrade'' = Some (''FirstGrade'', v29)"
  "col (zip COLUMNS vs) ''SecondGrade'' = Some (''SecondGrade'', v30)"
  "col (zip COLUMNS vs) ''FinalGrade'' = Some (''FinalGrade'', v31)"
  unfolding assms by (simp_all add: col_def COLUMNS_def)

lemma dummies_other_label:
  "\<not> prefix (pfx @ ''_'') name \<Longrightarrow> filter (\<lambda>s. fst s = name) (get_dummies fmt c pfx) = []"
  by (auto simp: get_dummies_def filter_empty_conv)

lemma dummies_keep_label:
  "\<not> prefix (pfx @ ''_'') name \<Longrightarrow> filter (\<lambda>s. fst s \<noteq> name) (get_dummies fmt c pfx) = get_dummies fmt c pfx"
  by (auto simp: get_dummies_def filter_id_conv)

lemma drop_df: "drop_labels [''FinalGrade''] (df_of_columns fmt v) = Some (tl (df_of_columns fmt v))"
  by (simp add: drop_labels_def labels_def df_of_columns_def map_series_def dummies_keep_label)

lemma col_df: "col (df_of_columns fmt v) ''FinalGrade'' = Some (''FinalGrade'', v ! 31)"
  by (simp add: col_def df_of_columns_def map_series_def dummies_other_label)

lemma preprocess_run_explicit:
  "preprocess_run fmt
      [a0, a1, a2, a3, a4, a5, a6, a7, a8, a9, a10, a11, a12, a13, a14, a15, a16, a17,
       a18, a19, a20, a21, a22, a23, a24, a25, a26, a27, a28, a29, a30, a31] =
   Some (zip COLUMNS
      [snd a0, snd a1, snd a2, snd a3, snd a4, snd a5, snd a6, snd a7, snd a8, snd a9,
       snd a10, snd a11, snd a12, snd a13, snd a14, snd a15, snd a16, snd a17, snd a18,
       snd a19, snd a20, snd a21, snd a22, snd a23, snd a24, snd a25, snd a26, snd a27,
       snd a28, snd a29, snd a30, snd a31],
     tl (df_of_columns fmt
      [snd a0, snd a1, snd a2, snd a3, snd a4, snd a5, snd a6, snd a7, snd a8, snd a9,
       snd a10, snd a11, snd a12, snd a13, snd a14, snd a15, snd a16, snd a17, snd a18,
       snd a19, snd a20, snd a21, snd a22, snd a23, snd a24, snd a25, snd a26, snd a27,
       snd a28, snd a29, snd a30, snd a31]),
     (''FinalGrade'', snd a31),
     df_of_columns fmt
      [snd a0, snd a1, snd a2, snd a3, snd a4, snd a5, snd a6, snd a7, snd a8, snd a9,
       snd a10, snd a11, snd a12, snd a13, snd a14, snd a15, snd a16, snd a17, snd a18,
       snd a19, snd a20, snd a21, snd a22, snd a23, snd a24, snd a25, snd a26, snd a27,
       snd a28, snd a29, snd a30, snd a31])"
proof -
  have fin: "X = df_of_columns fmt v \<Longrightarrow>
      drop_labels [''FinalGrade''] X \<bind> (\<lambda>X'. col X ''FinalGrade'' \<bind> (\<lambda>y. Some (S, X', y, X)))
      = Some (S, tl (df_of_columns fmt v), (''FinalGrade'', v ! 31), df_of_columns fmt v)" for X v S
    by (simp add: drop_df col_df)
  show ?thesis
    unfolding preprocess_run_def set_columns_explicit
    apply (simp only: bind.simps col_renamed [OF refl] Let_def DataFrame_def concat_cols_def)
    apply (rule trans [OF fin [of _ "[snd a0, snd a1, snd a2, snd a3, snd a4, snd a5, snd a6, snd a7, snd a8, snd a9,
       snd a10, snd a11, snd a12, snd a13, snd a14, snd a15, snd a16, snd a17, snd a18,
       snd a19, snd a20, snd a21, snd a22, snd a23, snd a24, snd a25, snd a26, snd a27,
       snd a28, snd a29, snd a30, snd a31]"]])
     apply (simp add: df_of_columns_def)
    apply simp
    done
qed

lemma preprocess_run_closed:
  assumes "length students = 32"
  shows "preprocess_run fmt students =
    Some (zip COLUMNS (map snd students), tl (df_of_columns fmt (map snd students)),
          (''FinalGrade'', snd (students ! 31)), df_of_columns fmt (map snd students))"
proof -
  let ?ys = "[students ! 0, students ! 1, students ! 2, students ! 3, students ! 4,
       students ! 5, students ! 6, students ! 7, students ! 8, students ! 9,
       students ! 10, students ! 11, students ! 12, students ! 13, students ! 14,
       students ! 15, students ! 16, students ! 17, students ! 18, students ! 19,
       students ! 20, students ! 21, students ! 22, students ! 23, students ! 24,
       students ! 25, students ! 26, students ! 27, students ! 28, students ! 29,
       students ! 30, students ! 31]"
  have e: "students = ?ys"
    by (rule length_32_explicit [OF assms])
  have "preprocess_run fmt students = preprocess_run fmt ?ys"
    by (rule arg_cong [OF e])
  also have "\<dots> = Some (zip COLUMNS (map snd ?ys), tl (df_of_columns fmt (map snd ?ys)),
          (''FinalGrade'', snd (students ! 31)), df_of_columns fmt (map snd ?ys))"
    unfolding preprocess_run_explicit by simp
  also have "map snd ?ys = map snd students"
    by (rule arg_cong [OF e [symmetric]])
  finally show ?thesis .
qed

lemma preprocess_closed:
  assumes "length students = 32"
  shows "preprocess_data fmt students =
    Some (tl (df_of_columns fmt (map snd students)), (''FinalGrade'', snd (students ! 31)),
          df_of_columns fmt (map snd students))"
  unfolding preprocess_data_def preprocess_run_closed [OF assms] by simp

lemma preprocess_run_None: "length students \<noteq> 32 \<Longrightarrow> preprocess_run fmt students = None"
  by (simp add: preprocess_run_def set_columns_def COLUMNS_def)

lemma preprocess_None: "length students \<noteq> 32 \<Longrightarrow> preprocess_data fmt students = None"
  by (simp add: preprocess_data_def preprocess_run_None)

lemma preprocess_Some_length:
  "preprocess_data fmt students = Some r \<Longrightarrow> length students = 32"
  using preprocess_None [of students fmt] by (cases "length students = 32") simp_all

lemma renamed_closed:
  assumes "length students = 32"
  shows "set_columns COLUMNS students = Some (zip COLUMNS (map snd students))"
  using assms by (simp add: set_columns_def COLUMNS_def)

section \<open>Renaming and totality\<close>

lemma sample_length: "length sample_students = 32"
  by (simp add: sample_students_def)

text \<open>
  C5. On every frame of exactly 32 columns the function returns its triple: no statement
  of it raises. This needs no assumption on the values of the binary columns, so it holds
  in particular when they are all keys of the dictionaries.
\<close>

theorem C5_preprocess_total:
  assumes "length students = 32"
  shows "\<exists>X y df. preprocess_data fmt students = Some (X, y, df)"
  using preprocess_closed [OF assms] by blast

theorem C5_preprocess_total_witness:
  "length sample_students = 32 \<and> (\<exists>X y df. preprocess_data str_int64 sample_students = Some (X, y, df))"
  using C5_preprocess_total [OF sample_length] sample_length by blast

section \<open>The columns of the result\<close>

lemma col_X_mapped:
  "col (tl (df_of_columns fmt v)) ''Gender'' = Some (map_series gender_dict (''Gender'', v ! 0))"
  "col (tl (df_of_columns fmt v)) ''Address'' = Some (map_series address_dict (''Address'', v ! 2))"
  "col (tl (df_of_columns fmt v)) ''FamilySize'' = Some (map_series famsize_dict (''FamilySize'', v ! 3))"
  "col (tl (df_of_columns fmt v)) ''ParentCohabStatus'' = Some (map_series cohab_dict (''ParentCohabStatus'', v ! 4))"
  "col (tl (df_of_columns fmt v)) ''SchoolSup'' = Some (map_series yes_no_dict (''SchoolSup'', v ! 14))"
  "col (tl (df_of_columns fmt v)) ''FamilySup'' = Some (map_series yes_no_dict (''FamilySup'', v ! 15))"
  "col (tl (df_of_columns fmt v)) ''ExtraPaidClasses'' = Some (map_series yes_no_dict (''ExtraPaidClasses'', v ! 16))"
  "col (tl (df_of_columns fmt v)) ''Nursery'' = Some (map_series yes_no_dict (''Nursery'', v ! 18))"
  "col (tl (df_of_columns fmt v)) ''WantsHigherEdu'' = Some (map_series yes_no_dict (''WantsHigherEdu'', v ! 19))"
  "col (tl (df_of_columns fmt v)) ''HasInternet'' = Some (map_series yes_no_dict (''HasInternet'', v ! 20))"
  "col (tl (df_of_columns fmt v)) ''Romantic'' = Some (map_series yes_no_dict (''Romantic'', v ! 21))"
  by (simp_all add: col_def df_of_columns_def map_series_def dummies_other_label)

lemma col_X_copied:
  "col (tl (df_of_columns fmt v)) ''Age'' = Some (''Age'', v ! 1)"
  "col (tl (df_of_columns fmt v)) ''MotherEducation'' = Some (''MotherEducation'', v ! 5)"
  "col (tl (df_of_columns fmt v)) ''FatherEducation'' = Some (''FatherEducation'', v ! 6)"
  "col (tl (df_of_columns fmt v)) ''TravelTime'' = Some (''TravelTime'', v ! 11)"
  "col (tl (df_of_columns fmt v)) ''StudyTime'' = Some (''StudyTime'', v ! 12)"
  "col (tl (df_of_columns fmt v)) ''Failures'' = Some (''Failures'', v ! 13)"
  "col (tl (df_of_columns fmt v)) ''FamilyRelQuality'' = Some (''FamilyRelQuality'', v ! 22)"
  "col (tl (df_of_columns fmt v)) ''FreeTime'' = Some (''FreeTime'', v ! 23)"
  "col (tl (df_of_columns fmt v)) ''GoOut'' = Some (''GoOut'', v ! 24)"
  "col (tl (df_of_columns fmt v)) ''WorkdayAlcohol'' = Some (''WorkdayAlcohol'', v ! 25)"
  "col (tl (df_of_columns fmt v)) ''WeekendAlcohol'' = Some (''WeekendAlcohol'', v ! 26)"
  "col (tl (df_of_columns fmt v)) ''HealthStatus'' = Some (''HealthStatus'', v ! 27)"
  "col (tl (df_of_columns fmt v)) ''Absences'' = Some (''Absences'', v ! 28)"
  by (simp_all add: col_def df_of_columns_def map_series_def dummies_other_label)

lemma dummies_labels_prefix:
  "name \<in> set (labels (get_dummies fmt c pfx)) \<Longrightarrow> prefix (pfx @ ''_'') name"
  by (auto simp: labels_def get_dummies_def)

lemma dummies_labels_not:
  "\<not> prefix (pfx @ ''_'') name \<Longrightarrow> name \<notin> set (labels (get_dummies fmt c pfx))"
  using dummies_labels_prefix by blast

lemma df_labels:
  "labels (df_of_columns fmt v) =
     [''FinalGrade'', ''Gender'', ''Age'', ''Address'', ''FamilySize'', ''ParentCohabStatus'',
      ''MotherEducation'', ''FatherEducation'']
     @ labels (get_dummies fmt (''MotherJob'', v ! 7) ''MotherJob'')
     @ labels (get_dummies fmt (''FatherJob'', v ! 8) ''FatherJob'')
     @ labels (get_dummies fmt (''SchoolChoiceReason'', v ! 9) ''SchoolChoiceReason'')
     @ [''TravelTime'', ''StudyTime'', ''Failures'', ''SchoolSup'', ''FamilySup'',
        ''ExtraPaidClasses'', ''Nursery'', ''WantsHigherEdu'', ''HasInternet'', ''Romantic'',
        ''FamilyRelQuality'', ''FreeTime'', ''GoOut'', ''WorkdayAlcohol'', ''WeekendAlcohol'',
        ''HealthStatus'', ''Absences'']"
  by (simp add: df_of_columns_def labels_def map_series_def)

lemma df_labels_absent:
  "''ExtraActivities'' \<notin> set (labels (df_of_columns fmt v))"
  "''Guardian'' \<notin> set (labels (df_of_columns fmt v))"
  "''FirstGrade'' \<notin> set (labels (df_of_columns fmt v))"
  "''SecondGrade'' \<notin> set (labels (df_of_columns fmt v))"
  unfolding df_labels by (simp_all add: dummies_labels_not)

lemma df_nonempty: "df_of_columns fmt v \<noteq> []" "fst (hd (df_of_columns fmt v)) = ''FinalGrade''"
  by (simp_all add: df_of_columns_def)

lemma X_is_filter:
  "tl (df_of_columns fmt v) = filter (\<lambda>s. fst s \<noteq> ''FinalGrade'') (df_of_columns fmt v)"
  by (simp add: df_of_columns_def map_series_def dummies_keep_label)

lemma X_labels_subset: "set (labels (tl (df_of_columns fmt v))) \<subseteq> set (labels (df_of_columns fmt v))"
  unfolding labels_def by (metis list.set_sel(2) map_tl subsetI tl_Nil)

lemma X_no_FinalGrade: "''FinalGrade'' \<notin> set (labels (tl (df_of_columns fmt v)))"
  unfolding X_is_filter labels_def by auto

lemma encodes_map_series:
  assumes "col src name = Some (name, vs)"
    and "col out name = Some (map_series d (name, vs))"
    and "d = [Str one \<mapsto> Num 1, Str zero \<mapsto> Num 0]"
    and "one \<noteq> zero"
  shows "encodes src out name one zero"
proof -
  have "(case d x of Some r \<Rightarrow> r | None \<Rightarrow> NaN) = Num 1 \<longleftrightarrow> x = Str one" for x
    using assms(3,4) by (cases x) auto
  moreover have "(case d x of Some r \<Rightarrow> r | None \<Rightarrow> NaN) = Num 0 \<longleftrightarrow> x = Str zero" for x
    using assms(3,4) by (cases x) auto
  ultimately show ?thesis
    using assms(1,2) by (simp add: encodes_def map_series_def list_all2_map2 list_all2_same)
qed

lemma missing_outside_map_series:
  assumes "col src name = Some (name, vs)"
    and "col out name = Some (map_series d (name, vs))"
  shows "missing_outside src out name d"
  using assms by (simp add: missing_outside_def map_series_def list_all2_map2 list_all2_same)


section \<open>Dictionary encoding\<close>

lemma sample_returns:
  "preprocess_data str_int64 sample_students =
     Some (result_X (preprocess_data str_int64 sample_students), result_y (preprocess_data str_int64 sample_students),
           result_df (preprocess_data str_int64 sample_students))"
  unfolding preprocess_closed [OF sample_length] result_X_def result_y_def result_df_def
  by simp

lemma sample_not_None: "preprocess_data str_int64 sample_students \<noteq> None"
  unfolding preprocess_closed [OF sample_length] by simp

lemma preprocess_result:
  assumes "preprocess_data fmt students = Some (X, y, df)"
  shows "length students = 32"
    and "X = tl (df_of_columns fmt (map snd students))"
    and "y = (''FinalGrade'', snd (students ! 31))"
    and "df = df_of_columns fmt (map snd students)"
proof -
  show len: "length students = 32" by (rule preprocess_Some_length [OF assms])
  from assms [unfolded preprocess_closed [OF len]]
  show "X = tl (df_of_columns fmt (map snd students))"
    and "y = (''FinalGrade'', snd (students ! 31))"
    and "df = df_of_columns fmt (map snd students)"
    by auto
qed

lemma damaged_length: "length damaged_students = 32"
  by (simp add: damaged_students_def set_cell_def sample_students_def)

lemma col_None: "name \<notin> set (labels fr) \<Longrightarrow> col fr name = None"
proof -
  assume "name \<notin> set (labels fr)"
  then have "filter (\<lambda>s. fst s = name) fr = []"
    by (auto simp: labels_def filter_empty_conv)
  then show ?thesis by (simp add: col_def)
qed

text \<open>
  C1. Whenever the function returns, each of the eleven binary attributes that it encodes
  is encoded row by row through its dictionary: in the column of \<open>X\<close> the value is 1
  exactly in the rows where the relabelled input holds the first key, and 0 exactly where
  it holds the second: F and M for Gender, U and R for Address, LE3 and GT3 for FamilySize,
  T and A for ParentCohabStatus, yes and no for SchoolSup, FamilySup, ExtraPaidClasses,
  Nursery, WantsHigherEdu, HasInternet and Romantic.
\<close>

theorem C1_binary_encoding:
  assumes "preprocess_data fmt students = Some (X, y, df)"
  shows "\<exists>renamed. set_columns COLUMNS students = Some renamed \<and>
     encodes renamed X ''Gender'' ''F'' ''M'' \<and>
     encodes renamed X ''Address'' ''U'' ''R'' \<and>
     encodes renamed X ''FamilySize'' ''LE3'' ''GT3'' \<and>
     encodes renamed X ''ParentCohabStatus'' ''T'' ''A'' \<and>
     encodes renamed X ''SchoolSup'' ''yes'' ''no'' \<and>
     encodes renamed X ''FamilySup'' ''yes'' ''no'' \<and>
     encodes renamed X ''ExtraPaidClasses'' ''yes'' ''no'' \<and>
     encodes renamed X ''Nursery'' ''yes'' ''no'' \<and>
     encodes renamed X ''WantsHigherEdu'' ''yes'' ''no'' \<and>
     encodes renamed X ''HasInternet'' ''yes'' ''no'' \<and>
     encodes renamed X ''Romantic'' ''yes'' ''no''"
proof -
  note len = preprocess_result(1) [OF assms]
  let ?v = "map snd students"
  have lv: "length ?v = 32" using len by simp
  note X = preprocess_result(2) [OF assms]
  note r = col_renamed [OF length_32_explicit [OF lv]]
  have e1: "encodes (zip COLUMNS ?v) X ''Gender'' ''F'' ''M''"
    unfolding X by (rule encodes_map_series [OF r(1) col_X_mapped(1) gender_dict_def]) simp
  have e2: "encodes (zip COLUMNS ?v) X ''Address'' ''U'' ''R''"
    unfolding X by (rule encodes_map_series [OF r(3) col_X_mapped(2) address_dict_def]) simp
  have e3: "encodes (zip COLUMNS ?v) X ''FamilySize'' ''LE3'' ''GT3''"
    unfolding X by (rule encodes_map_series [OF r(4) col_X_mapped(3) famsize_dict_def]) simp
  have e4: "encodes (zip COLUMNS ?v) X ''ParentCohabStatus'' ''T'' ''A''"
    unfolding X by (rule encodes_map_series [OF r(5) col_X_mapped(4) cohab_dict_def]) simp
  have e5: "encodes (zip COLUMNS ?v) X ''SchoolSup'' ''yes'' ''no''"
    unfolding X by (rule encodes_map_series [OF r(15) col_X_mapped(5) yes_no_dict_def]) simp
  have e6: "encodes (zip COLUMNS ?v) X ''FamilySup'' ''yes'' ''no''"
    unfolding X by (rule encodes_map_series [OF r(16) col_X_mapped(6) yes_no_dict_def]) simp
  have e7: "encodes (zip COLUMNS ?v) X ''ExtraPaidClasses'' ''yes'' ''no''"
    unfolding X by (rule encodes_map_series [OF r(17) col_X_mapped(7) yes_no_dict_def]) simp
  have e8: "encodes (zip COLUMNS ?v) X ''Nursery'' ''yes'' ''no''"
    unfolding X by (rule encodes_map_series [OF r(19) col_X_mapped(8) yes_no_dict_def]) simp
  have e9: "encodes (zip COLUMNS ?v) X ''WantsHigherEdu'' ''yes'' ''no''"
    unfolding X by (rule encodes_map_series [OF r(20) col_X_mapped(9) yes_no_dict_def]) simp
  have e10: "encodes (zip COLUMNS ?v) X ''HasInternet'' ''yes'' ''no''"
    unfolding X by (rule encodes_map_series [OF r(21) col_X_mapped(10) yes_no_dict_def]) simp
  have e11: "encodes (zip COLUMNS ?v) X ''Romantic'' ''yes'' ''no''"
    unfolding X by (rule encodes_map_series [OF r(22) col_X_mapped(11) yes_no_dict_def]) simp
  from e1 e2 e3 e4 e5 e6 e7 e8 e9 e10 e11 renamed_closed [OF len]
  show ?thesis by blast
qed

theorem C1_binary_encoding_witness:
  "preprocess_data str_int64 sample_students \<noteq> None \<and>
   (\<exists>renamed. set_columns COLUMNS sample_students = Some renamed \<and>
     encodes renamed (result_X (preprocess_data str_int64 sample_students)) ''Gender'' ''F'' ''M'' \<and>
     encodes renamed (result_X (preprocess_data str_int64 sample_students)) ''Address'' ''U'' ''R'' \<and>
     encodes renamed (result_X (preprocess_data str_int64 sample_students)) ''FamilySize'' ''LE3'' ''GT3'' \<and>
     encodes renamed (result_X (preprocess_data str_int64 sample_students)) ''ParentCohabStatus'' ''T'' ''A'' \<and>
     encodes renamed (result_X (preprocess_data str_int64 sample_students)) ''SchoolSup'' ''yes'' ''no'' \<and>
     encodes renamed (result_X (preprocess_data str_int64 sample_students)) ''FamilySup'' ''yes'' ''no'' \<and>
     encodes renamed (result_X (preprocess_data str_int64 sample_students)) ''ExtraPaidClasses'' ''yes'' ''no'' \<and>
     encodes renamed (result_X (preprocess_data str_int64 sample_students)) ''Nursery'' ''yes'' ''no'' \<and>
     encodes renamed (result_X (preprocess_data str_int64 sample_students)) ''WantsHigherEdu'' ''yes'' ''no'' \<and>
     encodes renamed (result_X (preprocess_data str_int64 sample_students)) ''HasInternet'' ''yes'' ''no'' \<and>
     encodes renamed (result_X (preprocess_data str_int64 sample_students)) ''Romantic'' ''yes'' ''no'')"
  by (rule conjI [OF sample_not_None C1_binary_encoding [OF sample_returns]])

text \<open>
  C2. The schema declares twelve binary attributes, ExtraActivities among them, but the
  function never reads the ExtraActivities column: whenever it returns, neither \<open>df\<close> nor
  \<open>X\<close> has a column of that label. The other eleven are there (C1).
\<close>

theorem C2_extra_activities_omitted:
  assumes "preprocess_data fmt students = Some (X, y, df)"
  shows "''ExtraActivities'' \<in> set COLUMNS \<and>
     ''ExtraActivities'' \<notin> set (labels df) \<and>
     ''ExtraActivities'' \<notin> set (labels X) \<and>
     col X ''ExtraActivities'' = None"
proof -
  note len = preprocess_result(1) [OF assms]
  let ?v = "map snd students"
  note X = preprocess_result(2) [OF assms] and df = preprocess_result(4) [OF assms]
  have 1: "''ExtraActivities'' \<in> set COLUMNS" by (simp add: COLUMNS_def)
  have 2: "''ExtraActivities'' \<notin> set (labels df)"
    unfolding df by (rule df_labels_absent)
  have 3: "''ExtraActivities'' \<notin> set (labels X)"
    using 2 X_labels_subset [where v = "?v"] unfolding X df by blast
  from 1 2 3 col_None [OF 3] show ?thesis by blast
qed

theorem C2_extra_activities_omitted_witness:
  "preprocess_data str_int64 sample_students \<noteq> None \<and>
   ''ExtraActivities'' \<in> set COLUMNS \<and>
   ''ExtraActivities'' \<notin> set (labels (result_df (preprocess_data str_int64 sample_students))) \<and>
   ''ExtraActivities'' \<notin> set (labels (result_X (preprocess_data str_int64 sample_students))) \<and>
   col (result_X (preprocess_data str_int64 sample_students)) ''ExtraActivities'' = None"
  by (rule conjI [OF sample_not_None C2_extra_activities_omitted [OF sample_returns]])

text \<open>
  C8. Whenever the function returns \<open>(X, y, df)\<close>: the first column of \<open>df\<close> is FinalGrade;
  \<open>X\<close> is \<open>df\<close> without the FinalGrade column (what \<^verbatim>\<open>drop\<close> gives, and the columns of
  \<open>df\<close> after the first); \<open>y\<close> is the FinalGrade column of \<open>df\<close>; and neither FirstGrade nor
  SecondGrade labels a column of \<open>df\<close> or of \<open>X\<close>.
\<close>

theorem C8_result_shape:
  assumes "preprocess_data fmt students = Some (X, y, df)"
  shows "df \<noteq> [] \<and> fst (hd df) = ''FinalGrade'' \<and>
     drop_labels [''FinalGrade''] df = Some X \<and>
     X = filter (\<lambda>s. fst s \<noteq> ''FinalGrade'') df \<and> X = tl df \<and>
     ''FinalGrade'' \<notin> set (labels X) \<and>
     col df ''FinalGrade'' = Some y \<and>
     ''FirstGrade'' \<notin> set (labels df) \<and> ''SecondGrade'' \<notin> set (labels df) \<and>
     ''FirstGrade'' \<notin> set (labels X) \<and> ''SecondGrade'' \<notin> set (labels X)"
proof -
  note len = preprocess_result(1) [OF assms]
  let ?v = "map snd students"
  note X = preprocess_result(2) [OF assms] and y = preprocess_result(3) [OF assms]
    and df = preprocess_result(4) [OF assms]
  have y': "y = (''FinalGrade'', ?v ! 31)" using y len by simp
  have a: "df \<noteq> []" "fst (hd df) = ''FinalGrade''"
    unfolding df by (rule df_nonempty)+
  have b: "drop_labels [''FinalGrade''] df = Some X"
    unfolding df X by (rule drop_df)
  have c: "X = filter (\<lambda>s. fst s \<noteq> ''FinalGrade'') df" "X = tl df"
    unfolding df X by (rule X_is_filter, rule refl)
  have d: "''FinalGrade'' \<notin> set (labels X)"
    unfolding X by (rule X_no_FinalGrade)
  have e: "col df ''FinalGrade'' = Some y"
    unfolding df y' by (rule col_df)
  have f: "''FirstGrade'' \<notin> set (labels df)" "''SecondGrade'' \<notin> set (labels df)"
    unfolding df by (rule df_labels_absent)+
  have g: "''FirstGrade'' \<notin> set (labels X)" "''SecondGrade'' \<notin> set (labels X)"
    using f X_labels_subset [where v = "?v"] unfolding X df by blast+
  from a b c d e f g show ?thesis by blast
qed

theorem C8_result_shape_witness:
  "preprocess_data str_int64 sample_students \<noteq> None \<and>
   (result_df (preprocess_data str_int64 sample_students) \<noteq> [] \<and>
    fst (hd (result_df (preprocess_data str_int64 sample_students))) = ''FinalGrade'' \<and>
    drop_labels [''FinalGrade''] (result_df (preprocess_data str_int64 sample_students))
      = Some (result_X (preprocess_data str_int64 sample_students)) \<and>
    result_X (preprocess_data str_int64 sample_students)
      = filter (\<lambda>s. fst s \<noteq> ''FinalGrade'') (result_df (preprocess_data str_int64 sample_students)) \<and>
    result_X (preprocess_data str_int64 sample_students) = tl (result_df (preprocess_data str_int64 sample_students)) \<and>
    ''FinalGrade'' \<notin> set (labels (result_X (preprocess_data str_int64 sample_students))) \<and>
    col (result_df (preprocess_data str_int64 sample_students)) ''FinalGrade''
      = Some (result_y (preprocess_data str_int64 sample_students)) \<and>
    ''FirstGrade'' \<notin> set (labels (result_df (preprocess_data str_int64 sample_students))) \<and>
    ''SecondGrade'' \<notin> set (labels (result_df (preprocess_data str_int64 sample_students))) \<and>
    ''FirstGrade'' \<notin> set (labels (result_X (preprocess_data str_int64 sample_students))) \<and>
    ''SecondGrade'' \<notin> set (labels (result_X (preprocess_data str_int64 sample_students))))"
  by (rule conjI [OF sample_not_None C8_result_shape [OF sample_returns]])

text \<open>
  C9. The dictionary encoding never raises on a value outside the keys: on every frame of
  32 columns, whatever its values, the function returns, and in each dictionary-encoded
  column of \<open>X\<close> the cell is the missing value in every row where the relabelled input
  holds a value that is not a key of the dictionary (any Gender other than F or M, any
  cell of a yes/no column other than yes or no, the missing value included).
\<close>

theorem C9_out_of_domain_is_missing:
  assumes "length students = 32"
  shows "\<exists>renamed X y df. set_columns COLUMNS students = Some renamed \<and>
     preprocess_data fmt students = Some (X, y, df) \<and>
     dom gender_dict = {Str ''F'', Str ''M''} \<and>
     dom address_dict = {Str ''U'', Str ''R''} \<and>
     dom famsize_dict = {Str ''LE3'', Str ''GT3''} \<and>
     dom cohab_dict = {Str ''T'', Str ''A''} \<and>
     dom yes_no_dict = {Str ''yes'', Str ''no''} \<and>
     missing_outside renamed X ''Gender'' gender_dict \<and>
     missing_outside renamed X ''Address'' address_dict \<and>
     missing_outside renamed X ''FamilySize'' famsize_dict \<and>
     missing_outside renamed X ''ParentCohabStatus'' cohab_dict \<and>
     missing_outside renamed X ''SchoolSup'' yes_no_dict \<and>
     missing_outside renamed X ''FamilySup'' yes_no_dict \<and>
     missing_outside renamed X ''ExtraPaidClasses'' yes_no_dict \<and>
     missing_outside renamed X ''Nursery'' yes_no_dict \<and>
     missing_outside renamed X ''WantsHigherEdu'' yes_no_dict \<and>
     missing_outside renamed X ''HasInternet'' yes_no_dict \<and>
     missing_outside renamed X ''Romantic'' yes_no_dict"
proof -
  let ?v = "map snd students"
  let ?X = "tl (df_of_columns fmt ?v)"
  have lv: "length ?v = 32" using assms by simp
  note r = col_renamed [OF length_32_explicit [OF lv]]
  have d: "dom gender_dict = {Str ''F'', Str ''M''}" "dom address_dict = {Str ''U'', Str ''R''}"
    "dom famsize_dict = {Str ''LE3'', Str ''GT3''}" "dom cohab_dict = {Str ''T'', Str ''A''}"
    "dom yes_no_dict = {Str ''yes'', Str ''no''}"
    by (auto simp: gender_dict_def address_dict_def famsize_dict_def cohab_dict_def yes_no_dict_def)
  have m1: "missing_outside (zip COLUMNS ?v) ?X ''Gender'' gender_dict"
    by (rule missing_outside_map_series [OF r(1) col_X_mapped(1)])
  have m2: "missing_outside (zip COLUMNS ?v) ?X ''Address'' address_dict"
    by (rule missing_outside_map_series [OF r(3) col_X_mapped(2)])
  have m3: "missing_outside (zip COLUMNS ?v) ?X ''FamilySize'' famsize_dict"
    by (rule missing_outside_map_series [OF r(4) col_X_mapped(3)])
  have m4: "missing_outside (zip COLUMNS ?v) ?X ''ParentCohabStatus'' cohab_dict"
    by (rule missing_outside_map_series [OF r(5) col_X_mapped(4)])
  have m5: "missing_outside (zip COLUMNS ?v) ?X ''SchoolSup'' yes_no_dict"
    by (rule missing_outside_map_series [OF r(15) col_X_mapped(5)])
  have m6: "missing_outside (zip COLUMNS ?v) ?X ''FamilySup'' yes_no_dict"
    by (rule missing_outside_map_series [OF r(16) col_X_mapped(6)])
  have m7: "missing_outside (zip COLUMNS ?v) ?X ''ExtraPaidClasses'' yes_no_dict"
    by (rule missing_outside_map_series [OF r(17) col_X_mapped(7)])
  have m8: "missing_outside (zip COLUMNS ?v) ?X ''Nursery'' yes_no_dict"
    by (rule missing_outside_map_series [OF r(19) col_X_mapped(8)])
  have m9: "missing_outside (zip COLUMNS ?v) ?X ''WantsHigherEdu'' yes_no_dict"
    by (rule missing_outside_map_series [OF r(20) col_X_mapped(9)])
  have m10: "missing_outside (zip COLUMNS ?v) ?X ''HasInternet'' yes_no_dict"
    by (rule missing_outside_map_series [OF r(21) col_X_mapped(10)])
  have m11: "missing_outside (zip COLUMNS ?v) ?X ''Romantic'' yes_no_dict"
    by (rule missing_outside_map_series [OF r(22) col_X_mapped(11)])
  have body: "set_columns COLUMNS students = Some (zip COLUMNS ?v) \<and>
      preprocess_data fmt students =
        Some (?X, (''FinalGrade'', snd (students ! 31)), df_of_columns fmt ?v) \<and>
      dom gender_dict = {Str ''F'', Str ''M''} \<and>
      dom address_dict = {Str ''U'', Str ''R''} \<and>
      dom famsize_dict = {Str ''LE3'', Str ''GT3''} \<and>
      dom cohab_dict = {Str ''T'', Str ''A''} \<and>
      dom yes_no_dict = {Str ''yes'', Str ''no''} \<and>
      missing_outside (zip COLUMNS ?v) ?X ''Gender'' gender_dict \<and>
      missing_outside (zip COLUMNS ?v) ?X ''Address'' address_dict \<and>
      missing_outside (zip COLUMNS ?v) ?X ''FamilySize'' famsize_dict \<and>
      missing_outside (zip COLUMNS ?v) ?X ''ParentCohabStatus'' cohab_dict \<and>
      missing_outside (zip COLUMNS ?v) ?X ''SchoolSup'' yes_no_dict \<and>
      missing_outside (zip COLUMNS ?v) ?X ''FamilySup'' yes_no_dict \<and>
      missing_outside (zip COLUMNS ?v) ?X ''ExtraPaidClasses'' yes_no_dict \<and>
      missing_outside (zip COLUMNS ?v) ?X ''Nursery'' yes_no_dict \<and>
      missing_outside (zip COLUMNS ?v) ?X ''WantsHigherEdu'' yes_no_dict \<and>
      missing_outside (zip COLUMNS ?v) ?X ''HasInternet'' yes_no_dict \<and>
      missing_outside (zip COLUMNS ?v) ?X ''Romantic'' yes_no_dict"
    by (intro conjI renamed_closed [OF assms] preprocess_closed [OF assms] d
        m1 m2 m3 m4 m5 m6 m7 m8 m9 m10 m11)
  show ?thesis
    by (rule exI, rule exI, rule exI, rule exI, rule body)
qed

theorem C9_out_of_domain_is_missing_witness:
  "length damaged_students = 32 \<and>
   (\<exists>renamed X y df. set_columns COLUMNS damaged_students = Some renamed \<and>
     preprocess_data str_int64 damaged_students = Some (X, y, df) \<and>
     dom gender_dict = {Str ''F'', Str ''M''} \<and>
     dom address_dict = {Str ''U'', Str ''R''} \<and>
     dom famsize_dict = {Str ''LE3'', Str ''GT3''} \<and>
     dom cohab_dict = {Str ''T'', Str ''A''} \<and>
     dom yes_no_dict = {Str ''yes'', Str ''no''} \<and>
     missing_outside renamed X ''Gender'' gender_dict \<and>
     missing_outside renamed X ''Address'' address_dict \<and>
     missing_outside renamed X ''FamilySize'' famsize_dict \<and>
     missing_outside renamed X ''ParentCohabStatus'' cohab_dict \<and>
     missing_outside renamed X ''SchoolSup'' yes_no_dict \<and>
     missing_outside renamed X ''FamilySup'' yes_no_dict \<and>
     missing_outside renamed X ''ExtraPaidClasses'' yes_no_dict \<and>
     missing_outside renamed X ''Nursery'' yes_no_dict \<and>
     missing_outside renamed X ''WantsHigherEdu'' yes_no_dict \<and>
     missing_outside renamed X ''HasInternet'' yes_no_dict \<and>
     missing_outside renamed X ''Romantic'' yes_no_dict)"
  by (rule conjI [OF damaged_length C9_out_of_domain_is_missing [OF damaged_length]])

section \<open>Order of the remote calls\<close>



section \<open>Rows and copied columns\<close>

lemma wf_nth: "wf_frame fr \<Longrightarrow> i < length fr \<Longrightarrow> length (snd (fr ! i)) = nrows fr"
  by (simp add: wf_frame_def list_all_length)

lemma dummies_lengths:
  "length vs = n \<Longrightarrow> list_all (\<lambda>s. length (snd s) = n) (get_dummies fmt (name, vs) pfx)"
  by (simp add: get_dummies_def list_all_iff)

lemma wf_df:
  assumes "\<forall>i<32. length (v ! i) = n"
  shows "wf_frame (df_of_columns fmt v)" and "nrows (df_of_columns fmt v) = n"
    and "wf_frame (tl (df_of_columns fmt v))" and "nrows (tl (df_of_columns fmt v)) = n"
proof -
  have n: "nrows (df_of_columns fmt v) = n" "nrows (tl (df_of_columns fmt v)) = n"
    using assms by (simp_all add: nrows_def df_of_columns_def map_series_def)
  show "nrows (df_of_columns fmt v) = n" "nrows (tl (df_of_columns fmt v)) = n"
    by (rule n)+
  have d: "list_all (\<lambda>s. length (snd s) = n) (get_dummies fmt (name, v ! i) pfx)" if "i < 32"
    for name i pfx
    using assms that by (simp add: dummies_lengths)
  have all: "list_all (\<lambda>s. length (snd s) = n) (df_of_columns fmt v)"
    using assms d [of 7] d [of 8] d [of 9]
    by (simp add: df_of_columns_def map_series_def)
  then show "wf_frame (df_of_columns fmt v)"
    unfolding wf_frame_def n .
  from all have "list_all (\<lambda>s. length (snd s) = n) (tl (df_of_columns fmt v))"
    by (simp add: df_of_columns_def)
  then show "wf_frame (tl (df_of_columns fmt v))"
    unfolding wf_frame_def n .
qed

lemma sample_wf: "wf_frame sample_students"
  by (simp add: wf_frame_def nrows_def sample_students_def)

text \<open>
  C10. On a frame whose columns all have one value per row, whenever the function
  returns, \<open>X\<close>, \<open>y\<close> and \<open>df\<close> have as many rows as the input and are frames again; \<open>y\<close> is
  the relabelled FinalGrade column itself; and each of the thirteen numerical attributes
  is in \<open>X\<close> the very column of the relabelled input, value for value and in the same order.
\<close>

theorem C10_rows_and_numeric_columns:
  assumes "wf_frame students" and "preprocess_data fmt students = Some (X, y, df)"
  shows "wf_frame X \<and> wf_frame df \<and>
     nrows X = nrows students \<and> nrows df = nrows students \<and>
     length (snd y) = nrows students \<and>
     (\<exists>renamed. set_columns COLUMNS students = Some renamed \<and>
        col renamed ''FinalGrade'' = Some y \<and>
        (\<forall>name \<in> set [''Age'', ''MotherEducation'', ''FatherEducation'', ''TravelTime'',
             ''StudyTime'', ''Failures'', ''FamilyRelQuality'', ''FreeTime'', ''GoOut'',
             ''WorkdayAlcohol'', ''WeekendAlcohol'', ''HealthStatus'', ''Absences''].
           col X name \<noteq> None \<and> col X name = col renamed name))"
proof -
  note len = preprocess_result(1) [OF assms(2)]
  let ?v = "map snd students"
  let ?n = "nrows students"
  have lv: "length ?v = 32" using len by simp
  note X = preprocess_result(2) [OF assms(2)] and y = preprocess_result(3) [OF assms(2)]
    and df = preprocess_result(4) [OF assms(2)]
  note r = col_renamed [OF length_32_explicit [OF lv]]
  have cols: "\<forall>i<32. length (?v ! i) = ?n"
    using wf_nth [OF assms(1)] len by simp
  note w = wf_df [OF cols]
  have 1: "wf_frame X" "wf_frame df" "nrows X = ?n" "nrows df = ?n"
    unfolding X df by (rule w)+
  have 2: "length (snd y) = ?n"
    unfolding y using wf_nth [OF assms(1), of 31] len by simp
  have 3: "col (zip COLUMNS ?v) ''FinalGrade'' = Some y"
    unfolding y using r(32) len by simp
  have 4: "\<forall>name \<in> set [''Age'', ''MotherEducation'', ''FatherEducation'', ''TravelTime'',
             ''StudyTime'', ''Failures'', ''FamilyRelQuality'', ''FreeTime'', ''GoOut'',
             ''WorkdayAlcohol'', ''WeekendAlcohol'', ''HealthStatus'', ''Absences''].
           col X name \<noteq> None \<and> col X name = col (zip COLUMNS ?v) name"
    unfolding X by (simp add: col_X_copied r)
  from 1 2 3 4 renamed_closed [OF len] show ?thesis by blast
qed

theorem C10_rows_and_numeric_columns_witness:
  "wf_frame sample_students \<and> preprocess_data str_int64 sample_students \<noteq> None \<and>
   (wf_frame (result_X (preprocess_data str_int64 sample_students)) \<and>
    wf_frame (result_df (preprocess_data str_int64 sample_students)) \<and>
    nrows (result_X (preprocess_data str_int64 sample_students)) = nrows sample_students \<and>
    nrows (result_df (preprocess_data str_int64 sample_students)) = nrows sample_students \<and>
    length (snd (result_y (preprocess_data str_int64 sample_students))) = nrows sample_students \<and>
    (\<exists>renamed. set_columns COLUMNS sample_students = Some renamed \<and>
        col renamed ''FinalGrade'' = Some (result_y (preprocess_data str_int64 sample_students)) \<and>
        (\<forall>name \<in> set [''Age'', ''MotherEducation'', ''FatherEducation'', ''TravelTime'',
             ''StudyTime'', ''Failures'', ''FamilyRelQuality'', ''FreeTime'', ''GoOut'',
             ''WorkdayAlcohol'', ''WeekendAlcohol'', ''HealthStatus'', ''Absences''].
           col (result_X (preprocess_data str_int64 sample_students)) name \<noteq> None \<and>
           col (result_X (preprocess_data str_int64 sample_students)) name = col renamed name)))"
  by (rule conjI [OF sample_wf conjI [OF sample_not_None
        C10_rows_and_numeric_columns [OF sample_wf sample_returns]]])

section \<open>One-hot expansion\<close>

lemma set_num_values: "set (num_values vs) = {n. Num n \<in> set vs}"
  by (induction vs rule: num_values.induct) auto

lemma set_str_values: "set (str_values vs) = {s. Str s \<in> set vs}"
  by (induction vs rule: str_values.induct) auto

lemma set_levels: "set (levels vs) = set vs - {NaN}"
proof
  show "set (levels vs) \<subseteq> set vs - {NaN}"
    by (auto simp: levels_def set_num_values set_str_values)
  show "set vs - {NaN} \<subseteq> set (levels vs)"
  proof
    fix x assume "x \<in> set vs - {NaN}"
    then show "x \<in> set (levels vs)"
      by (cases x) (auto simp: levels_def set_num_values set_str_values)
  qed
qed

lemma distinct_levels: "distinct (levels vs)"
  by (auto simp: levels_def distinct_map inj_on_def)

lemma length_levels: "length (levels vs) = card (set vs - {NaN})"
  using distinct_card [OF distinct_levels, of vs] by (simp add: set_levels)

lemma indicator_hot: "indicator l v = Num 1 \<longleftrightarrow> l = v"
  by (auto simp: indicator_def)

lemma hot_count_dummies:
  assumes "i < length vs"
  shows "hot_count (get_dummies fmt (name, vs) pfx) i = (if vs ! i = NaN then 0 else 1)"
proof -
  have "hot_count (get_dummies fmt (name, vs) pfx) i = length (filter (\<lambda>l. l = vs ! i) (levels vs))"
    using assms by (simp add: hot_count_def get_dummies_def filter_map o_def indicator_hot)
  also have "\<dots> = card ({l. l = vs ! i} \<inter> set (levels vs))"
    by (rule distinct_length_filter [OF distinct_levels])
  also have "{l. l = vs ! i} \<inter> set (levels vs) = (if vs ! i = NaN then {} else {vs ! i})"
    using assms by (auto simp: set_levels)
  finally show ?thesis by simp
qed

lemma binary_dummies:
  "list_all (\<lambda>s. binary_column s \<and> length (snd s) = length vs) (get_dummies fmt (name, vs) pfx)"
  by (auto simp: get_dummies_def list_all_iff binary_column_def indicator_def)

lemma one_hot_dummies:
  assumes "col src pfx = Some (pfx, vs)"
    and "group pfx out = get_dummies fmt (pfx, vs) pfx"
  shows "one_hot fmt src out pfx"
proof -
  have 1: "list_all2
      (\<lambda>l s. fst s = pfx @ ''_'' @ str_level (fmt (pfx, vs)) l \<and>
             list_all2 (\<lambda>v x. x = (if v = l then Num 1 else Num 0)) vs (snd s))
      (levels vs) (get_dummies fmt (pfx, vs) pfx)"
    by (simp add: get_dummies_def list_all2_map2 list_all2_same indicator_def)
  have 2: "length (get_dummies fmt (pfx, vs) pfx) = card (set vs - {NaN})"
    by (simp add: get_dummies_def length_levels)
  have 3: "list_all (\<lambda>i. hot_count (get_dummies fmt (pfx, vs) pfx) i = (if vs ! i = NaN then 0 else 1))
             [0..<length vs]"
    by (simp add: list_all_iff hot_count_dummies)
  from 1 2 3 binary_dummies [where vs = vs and name = pfx and pfx = pfx and fmt = fmt]
  show ?thesis
    by (simp add: one_hot_def assms)
qed

lemma group_X:
  "group ''MotherJob'' (tl (df_of_columns fmt v)) = get_dummies fmt (''MotherJob'', v ! 7) ''MotherJob''"
  "group ''FatherJob'' (tl (df_of_columns fmt v)) = get_dummies fmt (''FatherJob'', v ! 8) ''FatherJob''"
  "group ''SchoolChoiceReason'' (tl (df_of_columns fmt v))
     = get_dummies fmt (''SchoolChoiceReason'', v ! 9) ''SchoolChoiceReason''"
  by (simp_all add: group_def df_of_columns_def map_series_def get_dummies_def filter_map o_def)

lemma damaged_returns:
  "preprocess_data str_int64 damaged_students =
     Some (result_X (preprocess_data str_int64 damaged_students), result_y (preprocess_data str_int64 damaged_students),
           result_df (preprocess_data str_int64 damaged_students))"
  unfolding preprocess_closed [OF damaged_length] result_X_def result_y_def result_df_def
  by simp

lemma damaged_not_None: "preprocess_data str_int64 damaged_students \<noteq> None"
  unfolding preprocess_closed [OF damaged_length] by simp

lemma damaged_X:
  "result_X (preprocess_data str_int64 damaged_students) = tl (df_of_columns str_int64 (map snd damaged_students))"
  by (rule preprocess_result(2) [OF damaged_returns])

lemma damaged_MotherJob:
  "map snd damaged_students ! 7 = [Str ''at_home'', NaN, Str ''services'']"
  by (simp add: damaged_students_def set_cell_def sample_students_def)

text \<open>
  C3 fails as stated. The second student of \<open>damaged_students\<close> has no value for the mother's
  job (an empty cell of the file); the function returns, and in that row none of the
  MotherJob indicators is 1.
\<close>

theorem C3_missing_value_counterexample:
  "nrows damaged_students = 3 \<and>
   preprocess_data str_int64 damaged_students \<noteq> None \<and>
   hot_count (group ''MotherJob'' (result_X (preprocess_data str_int64 damaged_students))) 1 = 0"
proof -
  have "nrows damaged_students = 3"
    by (simp add: nrows_def damaged_students_def set_cell_def sample_students_def)
  moreover have "hot_count (group ''MotherJob'' (result_X (preprocess_data str_int64 damaged_students))) 1 = 0"
    unfolding damaged_X group_X damaged_MotherJob
    by (simp add: hot_count_dummies)
  ultimately show ?thesis using damaged_not_None by blast
qed

text \<open>
  C3, amended. Whenever the function returns, for each of MotherJob, FatherJob and
  SchoolChoiceReason the columns of \<open>X\<close> labelled with that prefix are the indicator columns
  of the attribute: one per distinct value of the relabelled input column that is not
  missing (the levels, which are these values, each once); the column of a value is
  labelled prefix, underscore, value, and holds 1 in exactly the rows where the input
  holds that value and 0 in the others; so in every row exactly one indicator of the group
  is 1 when the input value is not missing, and none is when it is.
\<close>

theorem C3_one_hot:
  assumes "preprocess_data fmt students = Some (X, y, df)"
  shows "(\<exists>renamed. set_columns COLUMNS students = Some renamed \<and>
       one_hot fmt renamed X ''MotherJob'' \<and>
       one_hot fmt renamed X ''FatherJob'' \<and>
       one_hot fmt renamed X ''SchoolChoiceReason'') \<and>
     (\<forall>vs. distinct (levels vs) \<and> set (levels vs) = set vs - {NaN})"
proof -
  note len = preprocess_result(1) [OF assms]
  let ?v = "map snd students"
  have lv: "length ?v = 32" using len by simp
  note X = preprocess_result(2) [OF assms]
  note r = col_renamed [OF length_32_explicit [OF lv]]
  have 1: "one_hot fmt (zip COLUMNS ?v) X ''MotherJob''"
    unfolding X by (rule one_hot_dummies [OF r(8) group_X(1)])
  have 2: "one_hot fmt (zip COLUMNS ?v) X ''FatherJob''"
    unfolding X by (rule one_hot_dummies [OF r(9) group_X(2)])
  have 3: "one_hot fmt (zip COLUMNS ?v) X ''SchoolChoiceReason''"
    unfolding X by (rule one_hot_dummies [OF r(10) group_X(3)])
  from 1 2 3 renamed_closed [OF len] distinct_levels set_levels show ?thesis by blast
qed

theorem C3_one_hot_witness:
  "preprocess_data str_int64 damaged_students \<noteq> None \<and>
   ((\<exists>renamed. set_columns COLUMNS damaged_students = Some renamed \<and>
       one_hot str_int64 renamed (result_X (preprocess_data str_int64 damaged_students)) ''MotherJob'' \<and>
       one_hot str_int64 renamed (result_X (preprocess_data str_int64 damaged_students)) ''FatherJob'' \<and>
       one_hot str_int64 renamed (result_X (preprocess_data str_int64 damaged_students)) ''SchoolChoiceReason'') \<and>
     (\<forall>vs. distinct (levels vs) \<and> set (levels vs) = set vs - {NaN}))"
  by (rule conjI [OF damaged_not_None C3_one_hot [OF damaged_returns]])

section \<open>Relabelling\<close>

lemma col_renamed_nth:
  assumes "length (vs :: cell list list) = 32" and "i < 32"
  shows "col (zip COLUMNS vs) (COLUMNS ! i) = Some (COLUMNS ! i, vs ! i)"
proof -
  have d: "distinct COLUMNS" by (simp add: COLUMNS_def)
  have l: "length COLUMNS = 32" by (simp add: COLUMNS_def)
  have "filter (\<lambda>s. fst s = ns ! i) (zip ns vs) = [(ns ! i, vs ! i)]"
    if "distinct ns" "length ns = length vs" "i < length ns"
    for ns :: "string list" and vs :: "cell list list" and i
    using that
  proof (induction ns vs arbitrary: i rule: list_induct2')
    case (4 n ns v vs)
    have none: "filter (\<lambda>s. fst s = n) (zip ns vs) = []"
      using 4(2) by (auto simp: filter_empty_conv dest: set_zip_leftD)
    show ?case
    proof (cases i)
      case 0
      then show ?thesis using none by simp
    next
      case (Suc j)
      then have "ns ! j \<noteq> n" using 4(2,4) by auto
      then show ?thesis using Suc 4 by simp
    qed
  qed simp_all
  from this [OF d] l assms show ?thesis by (simp add: col_def)
qed

text \<open>
  C7. On a frame of exactly 32 columns the function first relabels the frame it was given,
  by position, with the fixed list of names, Gender first and FinalGrade last: the frame
  is left with these labels, in this order, over its unchanged values, so that the column
  found under the \<open>i\<close>-th name is the \<open>i\<close>-th column of the input. Every column of the result
  is then computed from the relabelled frame, under the new names: \<open>y\<close> is its FinalGrade
  column, the numerical columns of \<open>X\<close> are its columns of the same name, the encoded
  columns of \<open>X\<close> are the dictionary images of its columns of the same name, and the
  indicator columns of \<open>X\<close> are the expansion of its columns MotherJob, FatherJob and
  SchoolChoiceReason.
\<close>

theorem C7_columns_renamed:
  assumes "length students = 32"
  shows "\<exists>renamed X y df.
     preprocess_run fmt students = Some (renamed, X, y, df) \<and>
     preprocess_data fmt students = Some (X, y, df) \<and>
     labels renamed =
         [''Gender'', ''Age'', ''Address'', ''FamilySize'', ''ParentCohabStatus'',
          ''MotherEducation'', ''FatherEducation'', ''MotherJob'', ''FatherJob'',
          ''SchoolChoiceReason'', ''Guardian'', ''TravelTime'', ''StudyTime'',
          ''Failures'', ''SchoolSup'', ''FamilySup'', ''ExtraPaidClasses'',
          ''ExtraActivities'', ''Nursery'', ''WantsHigherEdu'', ''HasInternet'',
          ''Romantic'', ''FamilyRelQuality'', ''FreeTime'', ''GoOut'',
          ''WorkdayAlcohol'', ''WeekendAlcohol'', ''HealthStatus'', ''Absences'',
          ''FirstGrade'', ''SecondGrade'', ''FinalGrade''] \<and>
     map snd renamed = map snd students \<and>
     (\<forall>i<32. col renamed (labels renamed ! i) = Some (labels renamed ! i, snd (students ! i))) \<and>
     col renamed ''FinalGrade'' = Some y \<and>
     (\<forall>name \<in> set
             [''Age'', ''MotherEducation'', ''FatherEducation'', ''TravelTime'',
              ''StudyTime'', ''Failures'', ''FamilyRelQuality'', ''FreeTime'',
              ''GoOut'', ''WorkdayAlcohol'', ''WeekendAlcohol'', ''HealthStatus'',
              ''Absences''].
        col X name \<noteq> None \<and> col X name = col renamed name) \<and>
     (\<forall>(name, d) \<in> set
             [(''Gender'', gender_dict), (''Address'', address_dict),
              (''FamilySize'', famsize_dict), (''ParentCohabStatus'', cohab_dict),
              (''SchoolSup'', yes_no_dict), (''FamilySup'', yes_no_dict),
              (''ExtraPaidClasses'', yes_no_dict), (''Nursery'', yes_no_dict),
              (''WantsHigherEdu'', yes_no_dict), (''HasInternet'', yes_no_dict),
              (''Romantic'', yes_no_dict)].
        col X name \<noteq> None \<and> col X name = map_option (map_series d) (col renamed name)) \<and>
     (\<forall>name \<in> set [''MotherJob'', ''FatherJob'', ''SchoolChoiceReason''].
        map_option (\<lambda>c. get_dummies fmt c name) (col renamed name) = Some (group name X))"
proof -
  let ?v = "map snd students"
  let ?R = "zip COLUMNS ?v"
  let ?X = "tl (df_of_columns fmt ?v)"
  let ?y = "(''FinalGrade'', snd (students ! 31))"
  have lv: "length ?v = 32" using assms by simp
  have lc: "length COLUMNS = 32" by (simp add: COLUMNS_def)
  note r = col_renamed [OF length_32_explicit [OF lv]]
  have lab: "labels ?R = COLUMNS"
    unfolding labels_def using lc lv by simp
  have 1: "labels ?R =
         [''Gender'', ''Age'', ''Address'', ''FamilySize'', ''ParentCohabStatus'',
          ''MotherEducation'', ''FatherEducation'', ''MotherJob'', ''FatherJob'',
          ''SchoolChoiceReason'', ''Guardian'', ''TravelTime'', ''StudyTime'',
          ''Failures'', ''SchoolSup'', ''FamilySup'', ''ExtraPaidClasses'',
          ''ExtraActivities'', ''Nursery'', ''WantsHigherEdu'', ''HasInternet'',
          ''Romantic'', ''FamilyRelQuality'', ''FreeTime'', ''GoOut'',
          ''WorkdayAlcohol'', ''WeekendAlcohol'', ''HealthStatus'', ''Absences'',
          ''FirstGrade'', ''SecondGrade'', ''FinalGrade'']"
    unfolding lab by (simp add: COLUMNS_def)
  have 2: "map snd ?R = map snd students"
    using lc lv by simp
  have 3: "\<forall>i<32. col ?R (labels ?R ! i) = Some (labels ?R ! i, snd (students ! i))"
    unfolding lab using col_renamed_nth [OF lv] assms by simp
  have 4: "col ?R ''FinalGrade'' = Some ?y"
    using r(32) assms by simp
  have 5: "\<forall>name \<in> set
             [''Age'', ''MotherEducation'', ''FatherEducation'', ''TravelTime'',
              ''StudyTime'', ''Failures'', ''FamilyRelQuality'', ''FreeTime'',
              ''GoOut'', ''WorkdayAlcohol'', ''WeekendAlcohol'', ''HealthStatus'',
              ''Absences''].
        col ?X name \<noteq> None \<and> col ?X name = col ?R name"
    by (simp add: col_X_copied r)
  have 6: "\<forall>(name, d) \<in> set
             [(''Gender'', gender_dict), (''Address'', address_dict),
              (''FamilySize'', famsize_dict), (''ParentCohabStatus'', cohab_dict),
              (''SchoolSup'', yes_no_dict), (''FamilySup'', yes_no_dict),
              (''ExtraPaidClasses'', yes_no_dict), (''Nursery'', yes_no_dict),
              (''WantsHigherEdu'', yes_no_dict), (''HasInternet'', yes_no_dict),
              (''Romantic'', yes_no_dict)].
        col ?X name \<noteq> None \<and> col ?X name = map_option (map_series d) (col ?R name)"
    by (simp add: col_X_mapped r)
  have 7: "\<forall>name \<in> set [''MotherJob'', ''FatherJob'', ''SchoolChoiceReason''].
        map_option (\<lambda>c. get_dummies fmt c name) (col ?R name) = Some (group name ?X)"
    by (simp add: r group_X)
  have body: "preprocess_run fmt students = Some (?R, ?X, ?y, df_of_columns fmt ?v) \<and>
     preprocess_data fmt students = Some (?X, ?y, df_of_columns fmt ?v) \<and>
     labels ?R =
         [''Gender'', ''Age'', ''Address'', ''FamilySize'', ''ParentCohabStatus'',
          ''MotherEducation'', ''FatherEducation'', ''MotherJob'', ''FatherJob'',
          ''SchoolChoiceReason'', ''Guardian'', ''TravelTime'', ''StudyTime'',
          ''Failures'', ''SchoolSup'', ''FamilySup'', ''ExtraPaidClasses'',
          ''ExtraActivities'', ''Nursery'', ''WantsHigherEdu'', ''HasInternet'',
          ''Romantic'', ''FamilyRelQuality'', ''FreeTime'', ''GoOut'',
          ''WorkdayAlcohol'', ''WeekendAlcohol'', ''HealthStatus'', ''Absences'',
          ''FirstGrade'', ''SecondGrade'', ''FinalGrade''] \<and>
     map snd ?R = map snd students \<and>
     (\<forall>i<32. col ?R (labels ?R ! i) = Some (labels ?R ! i, snd (students ! i))) \<and>
     col ?R ''FinalGrade'' = Some ?y \<and>
     (\<forall>name \<in> set
             [''Age'', ''MotherEducation'', ''FatherEducation'', ''TravelTime'',
              ''StudyTime'', ''Failures'', ''FamilyRelQuality'', ''FreeTime'',
              ''GoOut'', ''WorkdayAlcohol'', ''WeekendAlcohol'', ''HealthStatus'',
              ''Absences''].
        col ?X name \<noteq> None \<and> col ?X name = col ?R name) \<and>
     (\<forall>(name, d) \<in> set
             [(''Gender'', gender_dict), (''Address'', address_dict),
              (''FamilySize'', famsize_dict), (''ParentCohabStatus'', cohab_dict),
              (''SchoolSup'', yes_no_dict), (''FamilySup'', yes_no_dict),
              (''ExtraPaidClasses'', yes_no_dict), (''Nursery'', yes_no_dict),
              (''WantsHigherEdu'', yes_no_dict), (''HasInternet'', yes_no_dict),
              (''Romantic'', yes_no_dict)].
        col ?X name \<noteq> None \<and> col ?X name = map_option (map_series d) (col ?R name)) \<and>
     (\<forall>name \<in> set [''MotherJob'', ''FatherJob'', ''SchoolChoiceReason''].
        map_option (\<lambda>c. get_dummies fmt c name) (col ?R name) = Some (group name ?X))"
    by (intro conjI preprocess_run_closed [OF assms] preprocess_closed [OF assms] 1 2 3 4 5 6 7)
  show ?thesis
    by (rule exI, rule exI, rule exI, rule exI, rule body)
qed

theorem C7_columns_renamed_witness:
  "length sample_students = 32 \<and>
   (\<exists>renamed X y df.
     preprocess_run str_int64 sample_students = Some (renamed, X, y, df) \<and>
     preprocess_data str_int64 sample_students = Some (X, y, df) \<and>
     labels renamed =
         [''Gender'', ''Age'', ''Address'', ''FamilySize'', ''ParentCohabStatus'',
          ''MotherEducation'', ''FatherEducation'', ''MotherJob'', ''FatherJob'',
          ''SchoolChoiceReason'', ''Guardian'', ''TravelTime'', ''StudyTime'',
          ''Failures'', ''SchoolSup'', ''FamilySup'', ''ExtraPaidClasses'',
          ''ExtraActivities'', ''Nursery'', ''WantsHigherEdu'', ''HasInternet'',
          ''Romantic'', ''FamilyRelQuality'', ''FreeTime'', ''GoOut'',
          ''WorkdayAlcohol'', ''WeekendAlcohol'', ''HealthStatus'', ''Absences'',
          ''FirstGrade'', ''SecondGrade'', ''FinalGrade''] \<and>
     map snd renamed = map snd sample_students \<and>
     (\<forall>i<32. col renamed (labels renamed ! i) = Some (labels renamed ! i, snd (sample_students ! i))) \<and>
     col renamed ''FinalGrade'' = Some y \<and>
     (\<forall>name \<in> set
             [''Age'', ''MotherEducation'', ''FatherEducation'', ''TravelTime'',
              ''StudyTime'', ''Failures'', ''FamilyRelQuality'', ''FreeTime'',
              ''GoOut'', ''WorkdayAlcohol'', ''WeekendAlcohol'', ''HealthStatus'',
              ''Absences''].
        col X name \<noteq> None \<and> col X name = col renamed name) \<and>
     (\<forall>(name, d) \<in> set
             [(''Gender'', gender_dict), (''Address'', address_dict),
              (''FamilySize'', famsize_dict), (''ParentCohabStatus'', cohab_dict),
              (''SchoolSup'', yes_no_dict), (''FamilySup'', yes_no_dict),
              (''ExtraPaidClasses'', yes_no_dict), (''Nursery'', yes_no_dict),
              (''WantsHigherEdu'', yes_no_dict), (''HasInternet'', yes_no_dict),
              (''Romantic'', yes_no_dict)].
        col X name \<noteq> None \<and> col X name = map_option (map_series d) (col renamed name)) \<and>
     (\<forall>name \<in> set [''MotherJob'', ''FatherJob'', ''SchoolChoiceReason''].
        map_option (\<lambda>c. get_dummies str_int64 c name) (col renamed name) = Some (group name X)))"
  by (rule conjI [OF sample_length C7_columns_renamed [OF sample_length]])

section \<open>Train and validation split: sizes and partition\<close>

lemma n_test_div: "nat \<lceil>test_size * real n\<rceil> = (n + 4) div 5"
  unfolding test_size_def by (simp add: ceiling_altdef) linarith








lemma sample_df:
  "result_df (preprocess_data str_int64 sample_students) = df_of_columns str_int64 (map snd sample_students)"
  unfolding preprocess_closed [OF sample_length] result_df_def by simp

lemma sample_df_nrows: "nrows (result_df (preprocess_data str_int64 sample_students)) = 3"
  unfolding sample_df by (simp add: nrows_def df_of_columns_def sample_students_def)



section \<open>The model on the sample frames\<close>

text \<open>
  The values computed for the three sample students, to be compared with what pandas
  prints for the same rows: the levels come out sorted, the labels of the indicators are
  prefix, underscore, level, and no column is labelled ExtraActivities or Guardian.
\<close>

lemma sample_X_value:
  "result_X (preprocess_data str_int64 sample_students) =
    [(''Gender'', [Num 1, Num 1, Num 0]),
     (''Age'', [Num 18, Num 15, Num 16]),
     (''Address'', [Num 1, Num 1, Num 0]),
     (''FamilySize'', [Num 0, Num 1, Num 1]),
     (''ParentCohabStatus'', [Num 0, Num 1, Num 1]),
     (''MotherEducation'', [Num 4, Num 1, Num 4]),
     (''FatherEducation'', [Num 4, Num 1, Num 3]),
     (''MotherJob_at_home'', [Num 1, Num 1, Num 0]),
     (''MotherJob_services'', [Num 0, Num 0, Num 1]),
     (''FatherJob_other'', [Num 0, Num 1, Num 1]),
     (''FatherJob_teacher'', [Num 1, Num 0, Num 0]),
     (''SchoolChoiceReason_course'', [Num 1, Num 0, Num 0]),
     (''SchoolChoiceReason_other'', [Num 0, Num 1, Num 0]),
     (''SchoolChoiceReason_reputation'', [Num 0, Num 0, Num 1]),
     (''TravelTime'', [Num 2, Num 1, Num 1]),
     (''StudyTime'', [Num 2, Num 2, Num 2]),
     (''Failures'', [Num 0, Num 3, Num 0]),
     (''SchoolSup'', [Num 1, Num 1, Num 0]),
     (''FamilySup'', [Num 0, Num 0, Num 1]),
     (''ExtraPaidClasses'', [Num 0, Num 1, Num 1]),
     (''Nursery'', [Num 1, Num 1, Num 1]),
     (''WantsHigherEdu'', [Num 1, Num 1, Num 1]),
     (''HasInternet'', [Num 0, Num 1, Num 1]),
     (''Romantic'', [Num 0, Num 0, Num 0]),
     (''FamilyRelQuality'', [Num 4, Num 4, Num 5]),
     (''FreeTime'', [Num 3, Num 3, Num 4]),
     (''GoOut'', [Num 4, Num 2, Num 2]),
     (''WorkdayAlcohol'', [Num 1, Num 2, Num 1]),
     (''WeekendAlcohol'', [Num 1, Num 3, Num 2]),
     (''HealthStatus'', [Num 3, Num 3, Num 5]),
     (''Absences'', [Num 6, Num 10, Num 10])]"
  by code_simp

lemma sample_y_value:
  "result_y (preprocess_data str_int64 sample_students) = (''FinalGrade'', [Num 6, Num 10, Num 15])"
  by code_simp

lemma sample_df_value:
  "result_df (preprocess_data str_int64 sample_students) =
     (''FinalGrade'', [Num 6, Num 10, Num 15]) # result_X (preprocess_data str_int64 sample_students)"
  by code_simp

text \<open>A misspelt gender and an empty cell for the mother's job.\<close>

lemma damaged_Gender_value:
  "col (result_X (preprocess_data str_int64 damaged_students)) ''Gender'' = Some (''Gender'', [NaN, Num 1, Num 0])"
  by code_simp

lemma damaged_MotherJob_value:
  "group ''MotherJob'' (result_X (preprocess_data str_int64 damaged_students)) =
     [(''MotherJob_at_home'', [Num 1, Num 0, Num 0]),
      (''MotherJob_services'', [Num 0, Num 0, Num 1])]"
  by code_simp

text \<open>A nominal column of integers: the levels in increasing order, printed as integers.\<close>

lemma dummies_of_integers:
  "get_dummies str_int64 (''MotherJob'', [Num 2, Num 10, Num 2, Num (- 1)]) ''MotherJob'' =
     [(''MotherJob_-1'', [Num 0, Num 0, Num 0, Num 1]),
      (''MotherJob_2'', [Num 1, Num 0, Num 1, Num 0]),
      (''MotherJob_10'', [Num 0, Num 1, Num 0, Num 0])]"
  by code_simp

text \<open>The frame with fewer or more than 32 columns is refused.\<close>

lemma wrong_width_refused:
  "preprocess_data str_int64 (tl sample_students) = None"
  "preprocess_data str_int64 ((''school'', [Str ''GP'', Str ''GP'', Str ''MS'']) # sample_students) = None"
  by code_simp+

text \<open>
  The split of the three preprocessed rows for the shuffle 2, 0, 1: one validation row, the
  third student, and two training rows, the first and the second.
\<close>

lemma sample_split_value:
  "train_test_split [2, 0, 1] (result_df (preprocess_data str_int64 sample_students)) =
     Some (map (\<lambda>s. (fst s, [snd s ! 0, snd s ! 1])) (result_df (preprocess_data str_int64 sample_students)),
           map (\<lambda>s. (fst s, [snd s ! 2])) (result_df (preprocess_data str_int64 sample_students)))"
  by (simp add: train_test_split_def Let_def sample_df_nrows n_test_div iloc_def)

end
